theory Spec2Isabelle
  imports Main
begin

section \<open>Errors\<close>

text \<open>
  A Go \<open>error\<close> value as the three files see it: either the client library's
  \<open>*pagerduty.Error\<close>, which carries the HTTP status code of the response and a
  message, or a plain error made by \<open>errors.New\<close> / \<open>fmt.Errorf\<close>.
\<close>

datatype error =
    PagerDutyError nat string
  | PlainError string

text \<open>
  Modelled from the spec: \<open>isErrCode\<close> is called by the source files but its
  definition is not among them. The spec's Error Classifier inspects the HTTP status
  code the Remote Client exposes (429 is RateLimited, 404 is NotFound); an error without
  a status code matches no code.
\<close>

fun isErrCode :: "error \<Rightarrow> nat \<Rightarrow> bool" where
  "isErrCode (PagerDutyError status msg) code = (status = code)"
| "isErrCode (PlainError msg) code = False"

section \<open>Local state, time and the remote call history\<close>

text \<open>
  What one provider operation can observe or change: the \<open>*schema.ResourceData\<close> it is
  handed (an identity and a string-keyed mapping of attributes), and the outside world,
  kept as the chronological list of remote calls issued and of sleeps taken. Durations
  are in milliseconds.
\<close>

datatype event =
    RemoteCall string
  | Slept nat

record state =
  res_id :: string
  res_attrs :: "string \<rightharpoonup> string"
  history :: "event list"

fun duration :: "event \<Rightarrow> nat" where
  "duration (RemoteCall nm) = 0"
| "duration (Slept ms) = ms"

fun is_call :: "event \<Rightarrow> bool" where
  "is_call (RemoteCall nm) = True"
| "is_call (Slept ms) = False"

definition clock :: "state \<Rightarrow> nat" where
  "clock s = sum_list (map duration (history s))"

definition calls :: "state \<Rightarrow> nat" where
  "calls s = length (filter is_call (history s))"

definition time_Sleep :: "nat \<Rightarrow> state \<Rightarrow> state" where
  "time_Sleep ms s = s\<lparr>history := history s @ [Slept ms]\<rparr>"

definition remote_call :: "string \<Rightarrow> state \<Rightarrow> state" where
  "remote_call nm s = s\<lparr>history := history s @ [RemoteCall nm]\<rparr>"

text \<open>
  The accessors of \<open>ResourceData\<close> the source uses. \<open>d.Get(k).(string)\<close> is the zero
  value \<open>""\<close> for an attribute that was never set; \<open>d.GetOk(k)\<close> also says whether the
  value differs from the zero value.
\<close>

definition d_Id :: "state \<Rightarrow> string" where
  "d_Id s = res_id s"

definition d_SetId :: "string \<Rightarrow> state \<Rightarrow> state" where
  "d_SetId v s = s\<lparr>res_id := v\<rparr>"

definition d_Get :: "state \<Rightarrow> string \<Rightarrow> string" where
  "d_Get s k = (case res_attrs s k of None \<Rightarrow> [] | Some v \<Rightarrow> v)"

definition d_GetOk :: "state \<Rightarrow> string \<Rightarrow> string \<times> bool" where
  "d_GetOk s k = (d_Get s k, d_Get s k \<noteq> [])"

definition d_Set :: "string \<Rightarrow> string \<Rightarrow> state \<Rightarrow> state" where
  "d_Set k v s = s\<lparr>res_attrs := (res_attrs s)(k \<mapsto> v)\<rparr>"

section \<open>The retry loop\<close>

text \<open>
  What the function handed to \<open>resource.Retry\<close> returns: \<open>nil\<close> is \<open>None\<close>.
\<close>

datatype RetryError =
    RetryableError error
  | NonRetryableError error

text \<open>
  Modelled from the spec: \<open>resource.Retry\<close> comes from the plugin SDK and is not among
  the source files. Following the spec's Retry Controller: the operation is invoked
  repeatedly; success returns at once; a non-retryable failure returns at once; a
  retryable failure is retried unless the wall-clock deadline has been reached, and then
  the last failure is returned. The delays are taken inside the operation, as the source
  does with \<open>time.Sleep\<close>. The loop has no attempt bound, so it is a partial function:
  \<open>None\<close> is a loop that never returns.
\<close>

partial_function (option) Retry_loop ::
  "nat \<Rightarrow> (state \<Rightarrow> RetryError option \<times> state) \<Rightarrow> state \<Rightarrow> (error option \<times> state) option"
where
  "Retry_loop deadline f s =
     (case f s of
        (None, s') \<Rightarrow> Some (None, s')
      | (Some (NonRetryableError err), s') \<Rightarrow> Some (Some err, s')
      | (Some (RetryableError err), s') \<Rightarrow>
          if deadline \<le> clock s' then Some (Some err, s')
          else Retry_loop deadline f s')"

declare Retry_loop.simps [code]

definition Retry ::
  "nat \<Rightarrow> (state \<Rightarrow> RetryError option \<times> state) \<Rightarrow> state \<Rightarrow> (error option \<times> state) option"
where
  "Retry timeout f s = Retry_loop (clock s + timeout) f s"

section \<open>Remote representations and the Remote Client\<close>

record Schedule =
  schedule_ID :: string
  schedule_Name :: string

record Addon =
  addon_ID :: string
  addon_Name :: string
  addon_Src :: string
  addon_Type :: string

record ServiceReference =
  sref_ID :: string
  sref_Type :: string

record VendorReference =
  vref_ID :: string
  vref_Type :: string

text \<open>The two reference fields of \<open>pagerduty.Integration\<close> are pointers: \<open>nil\<close> is \<open>None\<close>.\<close>

record Integration =
  int_ID :: string
  int_Name :: string
  int_Type :: string
  int_Service :: "ServiceReference option"
  int_Vendor :: "VendorReference option"
  int_IntegrationKey :: string
  int_IntegrationEmail :: string
  int_HTMLURL :: string

text \<open>
  The Remote Client is an external collaborator: each of its operations is an arbitrary
  function of the number of remote calls issued so far and of the call's arguments, so
  that the remote service may answer the same request differently at each attempt.
  An operation returns an error (\<open>Inl\<close>, or \<open>Some\<close> where nothing else is returned) or
  a result. \<open>CreateIntegration\<close> may return a \<open>nil\<close> integration without an error.
\<close>

record Client =
  Schedules_List :: "nat \<Rightarrow> string \<Rightarrow> error + Schedule list"
  Addons_Get :: "nat \<Rightarrow> string \<Rightarrow> error + Addon"
  Addons_Install :: "nat \<Rightarrow> Addon \<Rightarrow> error + Addon"
  Addons_Update :: "nat \<Rightarrow> string \<Rightarrow> Addon \<Rightarrow> error option"
  Addons_Delete :: "nat \<Rightarrow> string \<Rightarrow> error option"
  Services_GetIntegration :: "nat \<Rightarrow> string \<Rightarrow> string \<Rightarrow> error + Integration"
  Services_CreateIntegration :: "nat \<Rightarrow> string \<Rightarrow> Integration \<Rightarrow> error + Integration option"
  Services_UpdateIntegration :: "nat \<Rightarrow> string \<Rightarrow> string \<Rightarrow> Integration \<Rightarrow> error option"
  Services_DeleteIntegration :: "nat \<Rightarrow> string \<Rightarrow> string \<Rightarrow> error option"

section \<open>The schedule data source\<close>

text \<open>
  \<open>schedule_attempt\<close> is the function literal that \<open>dataSourcePagerDutyScheduleRead\<close>
  hands to \<open>resource.Retry\<close>: one listing call, scoped by the searched name, and the scan
  of the answer. The \<open>for\<close> loop with its \<open>break\<close> keeps the first schedule whose name
  equals the searched name, which is \<open>find\<close>; \<open>==\<close> on Go strings is equality of the two
  character sequences.
\<close>

definition schedule_attempt :: "Client \<Rightarrow> string \<Rightarrow> state \<Rightarrow> RetryError option \<times> state" where
  "schedule_attempt client searchName s =
     (let s1 = remote_call ''Schedules.List'' s in
      case Schedules_List client (calls s) searchName of
        Inl err \<Rightarrow>
          if isErrCode err 429
          then (Some (RetryableError err), time_Sleep 30000 s1)
          else (Some (NonRetryableError err), s1)
      | Inr schedules \<Rightarrow>
          (case find (\<lambda>schedule. schedule_Name schedule = searchName) schedules of
             None \<Rightarrow>
               (Some (NonRetryableError (PlainError
                  (''Unable to locate any schedule with the name: '' @ searchName))), s1)
           | Some found \<Rightarrow>
               (None, d_Set ''name'' (schedule_Name found) (d_SetId (schedule_ID found) s1))))"

definition dataSourcePagerDutyScheduleRead :: "Client \<Rightarrow> state \<Rightarrow> (error option \<times> state) option" where
  "dataSourcePagerDutyScheduleRead client s =
     Retry 120000 (schedule_attempt client (d_Get s ''name'')) s"

section \<open>Error callbacks\<close>

text \<open>
  Modelled from the spec: \<open>genError\<close> and \<open>handleNotFoundError\<close> are passed to the fetch
  functions but their definitions are not among the source files. The spec's hard-fail
  callback always returns the error; its not-found callback clears the identity and
  returns no error when the error is classified NotFound, and otherwise returns the
  error.
\<close>

definition genError :: "error \<Rightarrow> state \<Rightarrow> error option \<times> state" where
  "genError err s = (Some err, s)"

definition handleNotFoundError :: "error \<Rightarrow> state \<Rightarrow> error option \<times> state" where
  "handleNotFoundError err s =
     (if isErrCode err 404 then (None, d_SetId [] s) else (Some err, s))"

section \<open>The add-on resource\<close>

text \<open>
  \<open>addon_attempt\<close> is the function literal inside \<open>fetchPagerDutyAddon\<close>: one lookup by
  the current identity; on an error the callback decides, and an error it returns is
  retried after a sleep of 2 seconds. Update and Delete issue their single call directly.
\<close>

definition buildAddonStruct :: "state \<Rightarrow> Addon" where
  "buildAddonStruct s =
     \<lparr>addon_ID = [], addon_Name = d_Get s ''name'', addon_Src = d_Get s ''src'',
      addon_Type = ''full_page_addon''\<rparr>"

definition addon_attempt ::
  "Client \<Rightarrow> (error \<Rightarrow> state \<Rightarrow> error option \<times> state) \<Rightarrow> state \<Rightarrow> RetryError option \<times> state"
where
  "addon_attempt client errCallback s =
     (let s1 = remote_call ''Addons.Get'' s in
      case Addons_Get client (calls s) (d_Id s) of
        Inl err \<Rightarrow>
          (case errCallback err s1 of
             (Some errResp, s2) \<Rightarrow> (Some (RetryableError errResp), time_Sleep 2000 s2)
           | (None, s2) \<Rightarrow> (None, s2))
      | Inr addon \<Rightarrow>
          (None, d_Set ''src'' (addon_Src addon) (d_Set ''name'' (addon_Name addon) s1)))"

definition fetchPagerDutyAddon ::
  "Client \<Rightarrow> (error \<Rightarrow> state \<Rightarrow> error option \<times> state) \<Rightarrow> state \<Rightarrow> (error option \<times> state) option"
where
  "fetchPagerDutyAddon client errCallback s =
     Retry 120000 (addon_attempt client errCallback) s"


definition resourcePagerDutyAddonRead :: "Client \<Rightarrow> state \<Rightarrow> (error option \<times> state) option" where
  "resourcePagerDutyAddonRead client s = fetchPagerDutyAddon client handleNotFoundError s"

definition resourcePagerDutyAddonUpdate :: "Client \<Rightarrow> state \<Rightarrow> error option \<times> state" where
  "resourcePagerDutyAddonUpdate client s =
     (let addon = buildAddonStruct s;
          s1 = remote_call ''Addons.Update'' s in
      case Addons_Update client (calls s) (d_Id s) addon of
        Some err \<Rightarrow> (Some err, s1)
      | None \<Rightarrow> (None, s1))"

definition resourcePagerDutyAddonDelete :: "Client \<Rightarrow> state \<Rightarrow> error option \<times> state" where
  "resourcePagerDutyAddonDelete client s =
     (let s1 = remote_call ''Addons.Delete'' s in
      case Addons_Delete client (calls s) (d_Id s) of
        Some err \<Rightarrow> (Some err, s1)
      | None \<Rightarrow> (None, d_SetId [] s1))"

section \<open>The service integration resource\<close>

definition errEmailIntegrationMustHaveEmail :: string where
  "errEmailIntegrationMustHaveEmail =
     ''integration_email attribute must be set for an integration type generic_email_inbound_integration''"

definition buildServiceIntegrationStruct :: "state \<Rightarrow> error + Integration" where
  "buildServiceIntegrationStruct s =
     (let si0 = \<lparr>int_ID = [], int_Name = d_Get s ''name'', int_Type = ''service_integration'',
                 int_Service = Some \<lparr>sref_ID = d_Get s ''service'', sref_Type = ''service''\<rparr>,
                 int_Vendor = None, int_IntegrationKey = [], int_IntegrationEmail = [],
                 int_HTMLURL = []\<rparr>;
          si1 = (case d_GetOk s ''integration_key'' of
                   (attr, ok) \<Rightarrow> if ok then si0\<lparr>int_IntegrationKey := attr\<rparr> else si0);
          si2 = (case d_GetOk s ''integration_email'' of
                   (attr, ok) \<Rightarrow> if ok then si1\<lparr>int_IntegrationEmail := attr\<rparr> else si1);
          si3 = (case d_GetOk s ''type'' of
                   (attr, ok) \<Rightarrow> if ok then si2\<lparr>int_Type := attr\<rparr> else si2);
          si4 = (case d_GetOk s ''vendor'' of
                   (attr, ok) \<Rightarrow>
                     if ok then si3\<lparr>int_Vendor := Some \<lparr>vref_ID = attr, vref_Type = ''vendor''\<rparr>\<rparr>
                     else si3)
      in if int_Type si4 = ''generic_email_inbound_integration'' \<and> int_IntegrationEmail si4 = []
         then Inl (PlainError errEmailIntegrationMustHaveEmail)
         else Inr si4)"

text \<open>
  \<open>write_integration\<close> is the tail of the function literal inside
  \<open>fetchPagerDutyServiceIntegration\<close>, after a successful lookup: the seven writes in the
  source's order, five of them guarded. \<open>integration_attempt\<close> is the whole literal; the
  service is read from the local state once, before the retry loop starts.
\<close>

definition write_integration :: "Integration \<Rightarrow> state \<Rightarrow> state" where
  "write_integration serviceIntegration s1 =
     (let s2 = d_Set ''name'' (int_Name serviceIntegration) s1;
          s3 = d_Set ''type'' (int_Type serviceIntegration) s2;
          s4 = (case int_Service serviceIntegration of
                  Some service \<Rightarrow> d_Set ''service'' (sref_ID service) s3
                | None \<Rightarrow> s3);
          s5 = (case int_Vendor serviceIntegration of
                  Some vendor \<Rightarrow> d_Set ''vendor'' (vref_ID vendor) s4
                | None \<Rightarrow> s4);
          s6 = (if int_IntegrationKey serviceIntegration \<noteq> []
                then d_Set ''integration_key'' (int_IntegrationKey serviceIntegration) s5
                else s5);
          s7 = (if int_IntegrationEmail serviceIntegration \<noteq> []
                then d_Set ''integration_email'' (int_IntegrationEmail serviceIntegration) s6
                else s6)
      in if int_HTMLURL serviceIntegration \<noteq> []
         then d_Set ''html_url'' (int_HTMLURL serviceIntegration) s7
         else s7)"

definition integration_attempt ::
  "Client \<Rightarrow> string \<Rightarrow> (error \<Rightarrow> state \<Rightarrow> error option \<times> state) \<Rightarrow> state
     \<Rightarrow> RetryError option \<times> state"
where
  "integration_attempt client service errCallback s =
     (let s1 = remote_call ''Services.GetIntegration'' s in
      case Services_GetIntegration client (calls s) service (d_Id s) of
        Inl err \<Rightarrow>
          (case errCallback err s1 of
             (Some errResp, s2) \<Rightarrow> (Some (RetryableError errResp), time_Sleep 2000 s2)
           | (None, s2) \<Rightarrow> (None, s2))
      | Inr serviceIntegration \<Rightarrow> (None, write_integration serviceIntegration s1))"

definition fetchPagerDutyServiceIntegration ::
  "Client \<Rightarrow> (error \<Rightarrow> state \<Rightarrow> error option \<times> state) \<Rightarrow> state \<Rightarrow> (error option \<times> state) option"
where
  "fetchPagerDutyServiceIntegration client errCallback s =
     (let service = d_Get s ''service'' in
      Retry 120000 (integration_attempt client service errCallback) s)"

text \<open>
  \<open>create_attempt\<close> is the function literal inside
  \<open>resourcePagerDutyServiceIntegrationCreate\<close>: HTTP 400 is retried after 2 seconds within
  one minute, any other error is final, and the identity is assigned when an integration
  comes back.
\<close>

definition create_attempt ::
  "Client \<Rightarrow> string \<Rightarrow> Integration \<Rightarrow> state \<Rightarrow> RetryError option \<times> state"
where
  "create_attempt client service serviceIntegration s =
     (let s1 = remote_call ''Services.CreateIntegration'' s in
      case Services_CreateIntegration client (calls s) service serviceIntegration of
        Inl err \<Rightarrow>
          if isErrCode err 400
          then (Some (RetryableError err), time_Sleep 2000 s1)
          else (Some (NonRetryableError err), s1)
      | Inr (Some created) \<Rightarrow> (None, d_SetId (int_ID created) s1)
      | Inr None \<Rightarrow> (None, s1))"

definition resourcePagerDutyServiceIntegrationCreate ::
  "Client \<Rightarrow> state \<Rightarrow> (error option \<times> state) option"
where
  "resourcePagerDutyServiceIntegrationCreate client s =
     (case buildServiceIntegrationStruct s of
        Inl err \<Rightarrow> Some (Some err, s)
      | Inr serviceIntegration \<Rightarrow>
          (let service = d_Get s ''service'' in
           case Retry 60000 (create_attempt client service serviceIntegration) s of
             None \<Rightarrow> None
           | Some (Some retryErr, s1) \<Rightarrow> Some (Some retryErr, s1)
           | Some (None, s1) \<Rightarrow> fetchPagerDutyServiceIntegration client genError s1))"

definition resourcePagerDutyServiceIntegrationRead ::
  "Client \<Rightarrow> state \<Rightarrow> (error option \<times> state) option"
where
  "resourcePagerDutyServiceIntegrationRead client s =
     fetchPagerDutyServiceIntegration client handleNotFoundError s"

definition resourcePagerDutyServiceIntegrationUpdate :: "Client \<Rightarrow> state \<Rightarrow> error option \<times> state" where
  "resourcePagerDutyServiceIntegrationUpdate client s =
     (case buildServiceIntegrationStruct s of
        Inl err \<Rightarrow> (Some err, s)
      | Inr serviceIntegration \<Rightarrow>
          (let service = d_Get s ''service'';
               s1 = remote_call ''Services.UpdateIntegration'' s in
           case Services_UpdateIntegration client (calls s) service (d_Id s) serviceIntegration of
             Some err \<Rightarrow> (Some err, s1)
           | None \<Rightarrow> (None, s1)))"

definition resourcePagerDutyServiceIntegrationDelete :: "Client \<Rightarrow> state \<Rightarrow> error option \<times> state" where
  "resourcePagerDutyServiceIntegrationDelete client s =
     (let service = d_Get s ''service'';
          s1 = remote_call ''Services.DeleteIntegration'' s in
      case Services_DeleteIntegration client (calls s) service (d_Id s) of
        Some err \<Rightarrow> (Some err, s1)
      | None \<Rightarrow> (None, d_SetId [] s1))"

subsection \<open>Import\<close>

text \<open>
  \<open>strings.Split(s, sep)\<close> for a separator of one character, the only way the source
  calls it: the pieces between the separators, so one piece more than there are
  separators, and the single piece \<open>""\<close> for the empty string.
\<close>

fun strings_Split :: "string \<Rightarrow> char \<Rightarrow> string list" where
  "strings_Split [] sep = [[]]"
| "strings_Split (c # cs) sep =
     (if c = sep then [] # strings_Split cs sep
      else (case strings_Split cs sep of
              [] \<Rightarrow> [[c]]
            | piece # pieces \<Rightarrow> (c # piece) # pieces))"

definition errImportFormat :: string where
  "errImportFormat =
     ''Error importing pagerduty_service_integration. Expecting an importation ID formed as '' @
     [CHR 0x27] @ ''<service_id>.<integration_id>'' @ [CHR 0x27]"

text \<open>
  The import returns the slice of resource data (empty on failure, the updated \<open>d\<close> on
  success) and the error.
\<close>

definition resourcePagerDutyServiceIntegrationImport ::
  "Client \<Rightarrow> state \<Rightarrow> (state list \<times> error option) \<times> state"
where
  "resourcePagerDutyServiceIntegrationImport client s =
     (let ids = strings_Split (d_Id s) (CHR ''.'') in
      if length ids \<noteq> 2 then (([], Some (PlainError errImportFormat)), s)
      else
        (let sid = ids ! 0;
             id' = ids ! 1;
             s1 = remote_call ''Services.GetIntegration'' s in
         case Services_GetIntegration client (calls s) sid id' of
           Inl err \<Rightarrow> (([], Some err), s1)
         | Inr found \<Rightarrow>
             (let s2 = d_Set ''service'' sid (d_SetId id' s1) in (([s2], None), s2))))"

section \<open>Concrete scenarios\<close>

text \<open>
  A remote service on which nothing exists and nothing can be created: every lookup and
  every delete reports HTTP 404, every create fails with HTTP 500, updates succeed and
  the schedule listing is empty. The other scenarios change single operations of it.
\<close>

definition not_found :: error where
  "not_found = PagerDutyError 404 ''Not Found''"

definition too_many_requests :: error where
  "too_many_requests = PagerDutyError 429 ''Too Many Requests''"

definition quiet_client :: Client where
  "quiet_client =
     \<lparr>Schedules_List = (\<lambda>n query. Inr []),
      Addons_Get = (\<lambda>n i. Inl not_found),
      Addons_Install = (\<lambda>n addon. Inl (PagerDutyError 500 ''Internal Server Error'')),
      Addons_Update = (\<lambda>n i addon. None),
      Addons_Delete = (\<lambda>n i. Some not_found),
      Services_GetIntegration = (\<lambda>n service i. Inl not_found),
      Services_CreateIntegration =
        (\<lambda>n service integration. Inl (PagerDutyError 500 ''Internal Server Error'')),
      Services_UpdateIntegration = (\<lambda>n service i integration. None),
      Services_DeleteIntegration = (\<lambda>n service i. Some not_found)\<rparr>"

definition rotation_A :: Schedule where
  "rotation_A = \<lparr>schedule_ID = ''PSCHED1'', schedule_Name = ''OnCallRotationA''\<rparr>"

definition rotation_AB :: Schedule where
  "rotation_AB = \<lparr>schedule_ID = ''PSCHED2'', schedule_Name = ''OnCallRotationAB''\<rparr>"

definition rotation_lower :: Schedule where
  "rotation_lower = \<lparr>schedule_ID = ''PSCHED3'', schedule_Name = ''oncallrotationa''\<rparr>"

definition listing_client :: "Schedule list \<Rightarrow> Client" where
  "listing_client schedules = quiet_client\<lparr>Schedules_List := (\<lambda>n query. Inr schedules)\<rparr>"

definition search_state :: state where
  "search_state = \<lparr>res_id = [], res_attrs = [''name'' \<mapsto> ''OnCallRotationA''], history = []\<rparr>"

definition dashboard_addon :: Addon where
  "dashboard_addon =
     \<lparr>addon_ID = ''PADDON1'', addon_Name = ''dashboard'', addon_Src = ''https://example.com/d'',
      addon_Type = ''full_page_addon''\<rparr>"

definition addon_state :: state where
  "addon_state =
     \<lparr>res_id = ''PADDON1'',
      res_attrs = [''name'' \<mapsto> ''dashboard'', ''src'' \<mapsto> ''https://example.com/d''],
      history = []\<rparr>"

definition new_addon_state :: state where
  "new_addon_state = addon_state\<lparr>res_id := []\<rparr>"

text \<open>
  An integration as the remote service returns it when no optional field is set, the same
  integration without a name, and the same integration renamed remotely.
\<close>

definition web_integration :: Integration where
  "web_integration =
     \<lparr>int_ID = ''PINT1'', int_Name = ''web'', int_Type = ''generic_events_api_inbound_integration'',
      int_Service = Some \<lparr>sref_ID = ''PSVC1'', sref_Type = ''service_reference''\<rparr>,
      int_Vendor = None, int_IntegrationKey = [], int_IntegrationEmail = [], int_HTMLURL = []\<rparr>"

definition unnamed_integration :: Integration where
  "unnamed_integration = web_integration\<lparr>int_Name := []\<rparr>"

definition renamed_integration :: Integration where
  "renamed_integration =
     web_integration
       \<lparr>int_Name := ''web-renamed'', int_HTMLURL := ''https://acme.pagerduty.com/i/PINT1''\<rparr>"

definition integration_state :: state where
  "integration_state =
     \<lparr>res_id = ''PINT1'',
      res_attrs = [''name'' \<mapsto> ''web'', ''service'' \<mapsto> ''PSVC1'',
                   ''type'' \<mapsto> ''generic_events_api_inbound_integration'',
                   ''integration_key'' \<mapsto> ''k-local''],
      history = []\<rparr>"

definition new_integration_state :: state where
  "new_integration_state = integration_state\<lparr>res_id := []\<rparr>"

definition email_state :: state where
  "email_state =
     \<lparr>res_id = ''PINT1'',
      res_attrs = [''name'' \<mapsto> ''mail'', ''service'' \<mapsto> ''PSVC1'',
                   ''type'' \<mapsto> ''generic_email_inbound_integration''],
      history = []\<rparr>"

definition import_state :: "string \<Rightarrow> state" where
  "import_state rawID = \<lparr>res_id = rawID, res_attrs = Map.empty, history = []\<rparr>"

definition unnamed_client :: Client where
  "unnamed_client =
     quiet_client\<lparr>Services_GetIntegration := (\<lambda>n service i. Inr unnamed_integration)\<rparr>"

definition renamed_client :: Client where
  "renamed_client =
     quiet_client\<lparr>Services_GetIntegration := (\<lambda>n service i. Inr renamed_integration)\<rparr>"

text \<open>A service that answers the first call with HTTP 429 and every later one normally.\<close>

definition limited_client :: Client where
  "limited_client =
     quiet_client
       \<lparr>Schedules_List := (\<lambda>n query. if n = 0 then Inl too_many_requests else Inr [rotation_A]),
        Addons_Get := (\<lambda>n i. if n = 0 then Inl too_many_requests else Inr dashboard_addon),
        Services_GetIntegration :=
          (\<lambda>n service i. if n = 0 then Inl too_many_requests else Inr web_integration)\<rparr>"

text \<open>A service that accepts every create and then never finds what it created.\<close>

definition created_client :: Client where
  "created_client =
     quiet_client
       \<lparr>Addons_Install := (\<lambda>n addon. Inr dashboard_addon),
        Services_CreateIntegration := (\<lambda>n service integration. Inr (Some web_integration))\<rparr>"

definition failing_update_client :: Client where
  "failing_update_client =
     quiet_client
       \<lparr>Addons_Update := (\<lambda>n i addon. Some too_many_requests),
        Services_UpdateIntegration := (\<lambda>n service i integration. Some too_many_requests)\<rparr>"

text \<open>The attributes a service integration read may write.\<close>

definition integration_keys :: "string set" where
  "integration_keys =
     {''name'', ''type'', ''service'', ''vendor'', ''integration_key'', ''integration_email'',
      ''html_url''}"

text \<open>
  The state a retry loop has reached after \<open>n\<close> attempts that each issued the call \<open>nm\<close>,
  were answered with a retryable error that left the local state alone, and slept \<open>ms\<close>
  milliseconds: \<open>n\<close> times a call and a sleep are appended to the history.
\<close>

definition retried :: "string \<Rightarrow> nat \<Rightarrow> nat \<Rightarrow> state \<Rightarrow> state" where
  "retried nm ms n s = s\<lparr>history := history s @ concat (replicate n [RemoteCall nm, Slept ms])\<rparr>"

definition server_error :: error where
  "server_error = PagerDutyError 500 ''Internal Server Error''"

text \<open>
  Services whose first answer is a retryable failure and whose later answers are the
  listing given, HTTP 404, or the renamed integration.
\<close>

definition limited_listing_client :: "Schedule list \<Rightarrow> Client" where
  "limited_listing_client schedules =
     quiet_client
       \<lparr>Schedules_List := (\<lambda>n query. if n = 0 then Inl too_many_requests else Inr schedules)\<rparr>"

definition vanishing_client :: Client where
  "vanishing_client =
     quiet_client
       \<lparr>Addons_Get := (\<lambda>n i. if n = 0 then Inl server_error else Inl not_found),
        Services_GetIntegration :=
          (\<lambda>n service i. if n = 0 then Inl server_error else Inl not_found)\<rparr>"

definition recovering_client :: Client where
  "recovering_client =
     quiet_client
       \<lparr>Services_GetIntegration :=
          (\<lambda>n service i. if n = 0 then Inl server_error else Inr renamed_integration)\<rparr>"

section \<open>Basic facts\<close>

subsection \<open>State operations\<close>

lemma clock_simps:
  "clock (remote_call nm s) = clock s"
  "clock (time_Sleep ms s) = clock s + ms"
  "clock (d_Set k v s) = clock s"
  "clock (d_SetId i s) = clock s"
  by (simp_all add: clock_def remote_call_def time_Sleep_def d_Set_def d_SetId_def)

lemma calls_simps:
  "calls (remote_call nm s) = Suc (calls s)"
  "calls (time_Sleep ms s) = calls s"
  "calls (d_Set k v s) = calls s"
  "calls (d_SetId i s) = calls s"
  by (simp_all add: calls_def remote_call_def time_Sleep_def d_Set_def d_SetId_def)

lemma res_id_simps:
  "res_id (remote_call nm s) = res_id s"
  "res_id (time_Sleep ms s) = res_id s"
  "res_id (d_Set k v s) = res_id s"
  "res_id (d_SetId i s) = i"
  by (simp_all add: remote_call_def time_Sleep_def d_Set_def d_SetId_def)

lemma res_attrs_simps:
  "res_attrs (remote_call nm s) = res_attrs s"
  "res_attrs (time_Sleep ms s) = res_attrs s"
  "res_attrs (d_Set k v s) = (res_attrs s)(k \<mapsto> v)"
  "res_attrs (d_SetId i s) = res_attrs s"
  by (simp_all add: remote_call_def time_Sleep_def d_Set_def d_SetId_def)

lemma history_simps:
  "history (remote_call nm s) = history s @ [RemoteCall nm]"
  "history (time_Sleep ms s) = history s @ [Slept ms]"
  "history (d_Set k v s) = history s"
  "history (d_SetId i s) = history s"
  by (simp_all add: remote_call_def time_Sleep_def d_Set_def d_SetId_def)

lemma rate_limited_is_not_missing: "isErrCode err 429 \<Longrightarrow> \<not> isErrCode err 404"
  by (cases err) simp_all

subsection \<open>One round of the retry loop\<close>

lemma Retry_loop_done:
  "f s = (None, s') \<Longrightarrow> Retry_loop deadline f s = Some (None, s')"
  by (subst Retry_loop.simps) simp

lemma Retry_loop_fatal:
  "f s = (Some (NonRetryableError err), s') \<Longrightarrow> Retry_loop deadline f s = Some (Some err, s')"
  by (subst Retry_loop.simps) simp


lemma Retry_loop_again:
  "f s = (Some (RetryableError err), s') \<Longrightarrow> \<not> deadline \<le> clock s' \<Longrightarrow>
   Retry_loop deadline f s = Retry_loop deadline f s'"
  by (subst Retry_loop.simps) simp

lemma Retry_loop_second_attempt:
  assumes "f s = (Some (RetryableError err), s1)" and "\<not> deadline \<le> clock s1"
    and "f s1 = (None, s2)"
  shows "Retry_loop deadline f s = Some (None, s2)"
  using assms by (simp add: Retry_loop_again Retry_loop_done)


subsection \<open>Lists and strings\<close>

lemma find_first:
  "\<forall>y\<in>set pre. \<not> P y \<Longrightarrow> P x \<Longrightarrow> find P (pre @ x # post) = Some x"
  by (induction pre) auto

lemma find_none:
  "\<forall>y\<in>set xs. \<not> P y \<Longrightarrow> find P xs = None"
  by (induction xs) auto

lemma length_strings_Split:
  "length (strings_Split str sep) = Suc (count_list str sep)"
  by (induction str) (auto split: list.splits)

subsection \<open>Single attempts\<close>

lemma schedule_attempt_rate_limited:
  assumes "Schedules_List client (calls s) searchName = Inl err" and "isErrCode err 429"
  shows "schedule_attempt client searchName s =
           (Some (RetryableError err),
            s\<lparr>history := history s @ [RemoteCall ''Schedules.List'', Slept 30000]\<rparr>)"
  using assms by (simp add: schedule_attempt_def remote_call_def time_Sleep_def)

lemma addon_attempt_genError:
  assumes "Addons_Get client (calls s) (d_Id s) = Inl err"
  shows "addon_attempt client genError s =
           (Some (RetryableError err), time_Sleep 2000 (remote_call ''Addons.Get'' s))"
  using assms by (simp add: addon_attempt_def genError_def)

lemma addon_attempt_not_found:
  assumes "Addons_Get client (calls s) (d_Id s) = Inl err" and "isErrCode err 404"
  shows "addon_attempt client handleNotFoundError s =
           (None, d_SetId [] (remote_call ''Addons.Get'' s))"
  using assms by (simp add: addon_attempt_def handleNotFoundError_def)

lemma addon_attempt_other_error:
  assumes "Addons_Get client (calls s) (d_Id s) = Inl err" and "\<not> isErrCode err 404"
  shows "addon_attempt client handleNotFoundError s =
           (Some (RetryableError err), time_Sleep 2000 (remote_call ''Addons.Get'' s))"
  using assms by (simp add: addon_attempt_def handleNotFoundError_def)

lemma addon_attempt_success:
  assumes "Addons_Get client (calls s) (d_Id s) = Inr addon"
  shows "addon_attempt client errCallback s =
           (None, d_Set ''src'' (addon_Src addon)
                    (d_Set ''name'' (addon_Name addon) (remote_call ''Addons.Get'' s)))"
  using assms by (simp add: addon_attempt_def)

lemma integration_attempt_genError:
  assumes "Services_GetIntegration client (calls s) service (d_Id s) = Inl err"
  shows "integration_attempt client service genError s =
           (Some (RetryableError err),
            time_Sleep 2000 (remote_call ''Services.GetIntegration'' s))"
  using assms by (simp add: integration_attempt_def genError_def)

lemma integration_attempt_not_found:
  assumes "Services_GetIntegration client (calls s) service (d_Id s) = Inl err"
    and "isErrCode err 404"
  shows "integration_attempt client service handleNotFoundError s =
           (None, d_SetId [] (remote_call ''Services.GetIntegration'' s))"
  using assms by (simp add: integration_attempt_def handleNotFoundError_def)

lemma integration_attempt_other_error:
  assumes "Services_GetIntegration client (calls s) service (d_Id s) = Inl err"
    and "\<not> isErrCode err 404"
  shows "integration_attempt client service handleNotFoundError s =
           (Some (RetryableError err),
            time_Sleep 2000 (remote_call ''Services.GetIntegration'' s))"
  using assms by (simp add: integration_attempt_def handleNotFoundError_def)

lemma integration_attempt_success:
  assumes "Services_GetIntegration client (calls s) service (d_Id s) = Inr si"
  shows "integration_attempt client service errCallback s =
           (None, write_integration si (remote_call ''Services.GetIntegration'' s))"
  using assms by (simp add: integration_attempt_def)

text \<open>
  A fetch attempt that is answered with HTTP 429 sleeps 2 seconds and asks for a retry,
  under either callback.
\<close>

lemma addon_attempt_rate_limited:
  assumes "Addons_Get client (calls s) (d_Id s) = Inl err" and "isErrCode err 429"
  shows "addon_attempt client handleNotFoundError s =
           (Some (RetryableError err),
            s\<lparr>history := history s @ [RemoteCall ''Addons.Get'', Slept 2000]\<rparr>)"
    and "addon_attempt client genError s =
           (Some (RetryableError err),
            s\<lparr>history := history s @ [RemoteCall ''Addons.Get'', Slept 2000]\<rparr>)"
  using addon_attempt_other_error [OF assms(1) rate_limited_is_not_missing [OF assms(2)]]
    addon_attempt_genError [OF assms(1)]
  by (simp_all add: time_Sleep_def remote_call_def)

lemma integration_attempt_rate_limited:
  assumes "Services_GetIntegration client (calls s) service (d_Id s) = Inl err"
    and "isErrCode err 429"
  shows "integration_attempt client service handleNotFoundError s =
           (Some (RetryableError err),
            s\<lparr>history := history s @ [RemoteCall ''Services.GetIntegration'', Slept 2000]\<rparr>)"
    and "integration_attempt client service genError s =
           (Some (RetryableError err),
            s\<lparr>history := history s @ [RemoteCall ''Services.GetIntegration'', Slept 2000]\<rparr>)"
  using integration_attempt_other_error [OF assms(1) rate_limited_is_not_missing [OF assms(2)]]
    integration_attempt_genError [OF assms(1)]
  by (simp_all add: time_Sleep_def remote_call_def)

lemma build_email_missing:
  assumes "d_Get s ''type'' = ''generic_email_inbound_integration''"
    and "d_Get s ''integration_email'' = []"
  shows "buildServiceIntegrationStruct s = Inl (PlainError errEmailIntegrationMustHaveEmail)"
  using assms by (simp add: buildServiceIntegrationStruct_def d_GetOk_def Let_def)

subsection \<open>What a successful integration read writes\<close>

lemma write_integration_frame:
  "res_id (write_integration si s) = res_id s"
  "history (write_integration si s) = history s"
  by (simp_all add: write_integration_def Let_def res_id_simps history_simps split: option.split)

lemma write_integration_attrs:
  "res_attrs (write_integration si s) ''name'' = Some (int_Name si)"
  "res_attrs (write_integration si s) ''type'' = Some (int_Type si)"
  "res_attrs (write_integration si s) ''service'' =
     (case int_Service si of Some service \<Rightarrow> Some (sref_ID service)
      | None \<Rightarrow> res_attrs s ''service'')"
  "res_attrs (write_integration si s) ''vendor'' =
     (case int_Vendor si of Some vendor \<Rightarrow> Some (vref_ID vendor)
      | None \<Rightarrow> res_attrs s ''vendor'')"
  "res_attrs (write_integration si s) ''integration_key'' =
     (if int_IntegrationKey si \<noteq> [] then Some (int_IntegrationKey si)
      else res_attrs s ''integration_key'')"
  "res_attrs (write_integration si s) ''integration_email'' =
     (if int_IntegrationEmail si \<noteq> [] then Some (int_IntegrationEmail si)
      else res_attrs s ''integration_email'')"
  "res_attrs (write_integration si s) ''html_url'' =
     (if int_HTMLURL si \<noteq> [] then Some (int_HTMLURL si)
      else res_attrs s ''html_url'')"
  by (simp_all add: write_integration_def Let_def res_attrs_simps split: option.split)

lemma write_integration_other:
  "k \<notin> integration_keys \<Longrightarrow> res_attrs (write_integration si s) k = res_attrs s k"
  by (simp add: write_integration_def integration_keys_def Let_def res_attrs_simps
      split: option.split)

subsection \<open>Attempts that end the retry loop\<close>

text \<open>
  Whatever the deadline and however many attempts came before, the loop returns at once
  from an attempt that finds the schedule, that finds no schedule, that is told the
  resource is gone, or that fetches the resource.
\<close>

lemma schedule_loop_first_exact_match:
  assumes "Schedules_List client (calls s) searchName = Inr (before @ found # after)"
    and "\<forall>schedule\<in>set before. schedule_Name schedule \<noteq> searchName"
    and "schedule_Name found = searchName"
  shows "Retry_loop deadline (schedule_attempt client searchName) s =
           Some (None,
             s\<lparr>res_id := schedule_ID found,
               res_attrs := (res_attrs s)(''name'' \<mapsto> schedule_Name found),
               history := history s @ [RemoteCall ''Schedules.List'']\<rparr>)"
proof -
  let ?s' = "d_Set ''name'' (schedule_Name found)
               (d_SetId (schedule_ID found) (remote_call ''Schedules.List'' s))"
  have "find (\<lambda>schedule. schedule_Name schedule = searchName) (before @ found # after)
          = Some found"
    using assms(2,3) by (intro find_first) auto
  then have "schedule_attempt client searchName s = (None, ?s')"
    using assms(1) by (simp add: schedule_attempt_def)
  then have "Retry_loop deadline (schedule_attempt client searchName) s = Some (None, ?s')"
    by (rule Retry_loop_done)
  then show ?thesis
    by (simp add: d_Set_def d_SetId_def remote_call_def)
qed

lemma schedule_loop_no_match:
  assumes "Schedules_List client (calls s) searchName = Inr schedules"
    and "\<forall>schedule\<in>set schedules. schedule_Name schedule \<noteq> searchName"
  shows "Retry_loop deadline (schedule_attempt client searchName) s =
           Some (Some (PlainError (''Unable to locate any schedule with the name: '' @ searchName)),
                 s\<lparr>history := history s @ [RemoteCall ''Schedules.List'']\<rparr>)"
proof -
  have "find (\<lambda>schedule. schedule_Name schedule = searchName) schedules = None"
    using assms(2) by (intro find_none) auto
  then have "schedule_attempt client searchName s =
      (Some (NonRetryableError
         (PlainError (''Unable to locate any schedule with the name: '' @ searchName))),
       remote_call ''Schedules.List'' s)"
    using assms(1) by (simp add: schedule_attempt_def)
  then have "Retry_loop deadline (schedule_attempt client searchName) s =
      Some (Some (PlainError (''Unable to locate any schedule with the name: '' @ searchName)),
            remote_call ''Schedules.List'' s)"
    by (rule Retry_loop_fatal)
  then show ?thesis
    by (simp add: remote_call_def)
qed

lemma addon_loop_not_found:
  assumes "Addons_Get client (calls s) (d_Id s) = Inl err" and "isErrCode err 404"
  shows "Retry_loop deadline (addon_attempt client handleNotFoundError) s =
           Some (None, s\<lparr>res_id := [], history := history s @ [RemoteCall ''Addons.Get'']\<rparr>)"
  using addon_attempt_not_found [OF assms]
  by (simp add: Retry_loop_done d_SetId_def remote_call_def)

lemma integration_loop_not_found:
  assumes "Services_GetIntegration client (calls s) service (d_Id s) = Inl err"
    and "isErrCode err 404"
  shows "Retry_loop deadline (integration_attempt client service handleNotFoundError) s =
           Some (None, s\<lparr>res_id := [],
                         history := history s @ [RemoteCall ''Services.GetIntegration'']\<rparr>)"
  using integration_attempt_not_found [OF assms]
  by (simp add: Retry_loop_done d_SetId_def remote_call_def)

lemma integration_loop_success:
  assumes "Services_GetIntegration client (calls s) service (d_Id s) = Inr si"
  shows "Retry_loop deadline (integration_attempt client service errCallback) s =
           Some (None, write_integration si (remote_call ''Services.GetIntegration'' s))"
  using integration_attempt_success [OF assms, of errCallback]
  by (simp add: Retry_loop_done)

lemma integration_read_success:
  assumes "Services_GetIntegration client (calls s) (d_Get s ''service'') (d_Id s) = Inr si"
  shows "fetchPagerDutyServiceIntegration client errCallback s =
           Some (None, write_integration si (remote_call ''Services.GetIntegration'' s))"
  using integration_loop_success [OF assms]
  by (simp add: fetchPagerDutyServiceIntegration_def Retry_def)

subsection \<open>Attempts reached after retries\<close>

lemma retried_0: "retried nm ms 0 s = s"
  by (simp add: retried_def)

lemma retried_Suc:
  "retried nm ms (Suc n) s = time_Sleep ms (remote_call nm (retried nm ms n s))"
proof -
  have "replicate (Suc n) [RemoteCall nm, Slept ms] =
          replicate n [RemoteCall nm, Slept ms] @ [[RemoteCall nm, Slept ms]]"
    by (simp add: replicate_append_same)
  then show ?thesis
    by (simp add: retried_def time_Sleep_def remote_call_def del: replicate.simps)
qed

lemma retried_simps:
  "calls (retried nm ms n s) = calls s + n"
  "clock (retried nm ms n s) = clock s + ms * n"
  "res_id (retried nm ms n s) = res_id s"
  "res_attrs (retried nm ms n s) = res_attrs s"
  "d_Id (retried nm ms n s) = d_Id s"
  by (induction n)
     (simp_all add: retried_0 retried_Suc calls_simps clock_simps res_id_simps res_attrs_simps
        d_Id_def)

text \<open>
  A run of \<open>k\<close> attempts that each ask for a retry before the deadline brings the loop
  to its next attempt, in the state those attempts left.
\<close>

lemma Retry_loop_skip_retries:
  assumes "\<And>i. i < k \<Longrightarrow>
      \<exists>err. f (st i) = (Some (RetryableError err), st (Suc i)) \<and> \<not> deadline \<le> clock (st (Suc i))"
  shows "Retry_loop deadline f (st 0) = Retry_loop deadline f (st k)"
  using assms
proof (induction k)
  case 0
  show ?case by simp
next
  case (Suc k)
  have before: "Retry_loop deadline f (st 0) = Retry_loop deadline f (st k)"
    using Suc.IH Suc.prems by simp
  obtain err where step: "f (st k) = (Some (RetryableError err), st (Suc k))"
      and early: "\<not> deadline \<le> clock (st (Suc k))"
    using Suc.prems [of k] by auto
  show ?case
    using before Retry_loop_again [where f = f and s = "st k", OF step early] by simp
qed

lemma schedule_loop_after_rate_limits:
  assumes limited: "\<forall>i<k. \<exists>e. Schedules_List client (calls s + i) searchName = Inl e \<and>
                        isErrCode e 429"
    and early: "clock s + 30000 * k < deadline"
  shows "Retry_loop deadline (schedule_attempt client searchName) s =
         Retry_loop deadline (schedule_attempt client searchName)
           (retried ''Schedules.List'' 30000 k s)"
proof -
  let ?st = "\<lambda>i. retried ''Schedules.List'' 30000 i s"
  have "\<exists>err. schedule_attempt client searchName (?st i) =
                (Some (RetryableError err), ?st (Suc i)) \<and>
              \<not> deadline \<le> clock (?st (Suc i))" if "i < k" for i
  proof -
    obtain e where e: "Schedules_List client (calls s + i) searchName = Inl e" "isErrCode e 429"
      using limited \<open>i < k\<close> by blast
    then have "schedule_attempt client searchName (?st i) =
                 (Some (RetryableError e), ?st (Suc i))"
      by (simp add: schedule_attempt_def retried_simps retried_Suc)
    moreover have "\<not> deadline \<le> clock (?st (Suc i))"
      using early \<open>i < k\<close> by (simp add: retried_simps)
    ultimately show ?thesis by blast
  qed
  from Retry_loop_skip_retries [where st = ?st and k = k, OF this]
  show ?thesis by (simp add: retried_0)
qed

lemma addon_loop_after_failures:
  assumes failed: "\<forall>i<k. \<exists>e. Addons_Get client (calls s + i) (d_Id s) = Inl e \<and>
                        \<not> isErrCode e 404"
    and early: "clock s + 2000 * k < deadline"
  shows "Retry_loop deadline (addon_attempt client handleNotFoundError) s =
         Retry_loop deadline (addon_attempt client handleNotFoundError)
           (retried ''Addons.Get'' 2000 k s)"
proof -
  let ?st = "\<lambda>i. retried ''Addons.Get'' 2000 i s"
  have "\<exists>err. addon_attempt client handleNotFoundError (?st i) =
                (Some (RetryableError err), ?st (Suc i)) \<and>
              \<not> deadline \<le> clock (?st (Suc i))" if "i < k" for i
  proof -
    obtain e where e: "Addons_Get client (calls s + i) (d_Id s) = Inl e" "\<not> isErrCode e 404"
      using failed \<open>i < k\<close> by blast
    then have "addon_attempt client handleNotFoundError (?st i) =
                 (Some (RetryableError e), ?st (Suc i))"
      by (simp add: addon_attempt_other_error retried_simps retried_Suc)
    moreover have "\<not> deadline \<le> clock (?st (Suc i))"
      using early \<open>i < k\<close> by (simp add: retried_simps)
    ultimately show ?thesis by blast
  qed
  from Retry_loop_skip_retries [where st = ?st and k = k, OF this]
  show ?thesis by (simp add: retried_0)
qed

lemma integration_loop_after_failures:
  assumes failed: "\<forall>i<k. \<exists>e. Services_GetIntegration client (calls s + i) service (d_Id s) = Inl e \<and>
                        \<not> isErrCode e 404"
    and early: "clock s + 2000 * k < deadline"
  shows "Retry_loop deadline (integration_attempt client service handleNotFoundError) s =
         Retry_loop deadline (integration_attempt client service handleNotFoundError)
           (retried ''Services.GetIntegration'' 2000 k s)"
proof -
  let ?st = "\<lambda>i. retried ''Services.GetIntegration'' 2000 i s"
  have "\<exists>err. integration_attempt client service handleNotFoundError (?st i) =
                (Some (RetryableError err), ?st (Suc i)) \<and>
              \<not> deadline \<le> clock (?st (Suc i))" if "i < k" for i
  proof -
    obtain e where e: "Services_GetIntegration client (calls s + i) service (d_Id s) = Inl e"
        "\<not> isErrCode e 404"
      using failed \<open>i < k\<close> by blast
    then have "integration_attempt client service handleNotFoundError (?st i) =
                 (Some (RetryableError e), ?st (Suc i))"
      by (simp add: integration_attempt_other_error retried_simps retried_Suc)
    moreover have "\<not> deadline \<le> clock (?st (Suc i))"
      using early \<open>i < k\<close> by (simp add: retried_simps)
    ultimately show ?thesis by blast
  qed
  from Retry_loop_skip_retries [where st = ?st and k = k, OF this]
  show ?thesis by (simp add: retried_0)
qed

subsection \<open>Fetching with the hard-fail callback from a service that keeps failing\<close>



subsection \<open>The concrete scenarios, evaluated\<close>

lemma scenario_states:
  "calls search_state = 0" "clock search_state = 0"
  "d_Get search_state ''name'' = ''OnCallRotationA''"
  "calls addon_state = 0" "clock addon_state = 0" "d_Id addon_state = ''PADDON1''"
  "calls new_addon_state = 0" "clock new_addon_state = 0"
  "calls integration_state = 0" "clock integration_state = 0"
  "d_Id integration_state = ''PINT1''" "d_Get integration_state ''service'' = ''PSVC1''"
  "calls new_integration_state = 0" "clock new_integration_state = 0"
  "d_Get new_integration_state ''service'' = ''PSVC1''"
  "d_Get email_state ''type'' = ''generic_email_inbound_integration''"
  "d_Get email_state ''integration_email'' = []"
  "d_Id (import_state rawID) = rawID"
  by (simp_all add: search_state_def addon_state_def new_addon_state_def integration_state_def
      new_integration_state_def email_state_def import_state_def calls_def clock_def d_Id_def
      d_Get_def)

lemma scenario_clients:
  "Schedules_List (listing_client schedules) n query = Inr schedules"
  "Addons_Get quiet_client n i = Inl not_found"
  "Addons_Delete quiet_client n i = Some not_found"
  "Services_GetIntegration quiet_client n service i = Inl not_found"
  "Services_DeleteIntegration quiet_client n service i = Some not_found"
  "Services_GetIntegration unnamed_client n service i = Inr unnamed_integration"
  "Services_GetIntegration renamed_client n service i = Inr renamed_integration"
  "Schedules_List limited_client 0 query = Inl too_many_requests"
  "Schedules_List limited_client (Suc n) query = Inr [rotation_A]"
  "Addons_Get limited_client 0 i = Inl too_many_requests"
  "Addons_Get limited_client (Suc n) i = Inr dashboard_addon"
  "Services_GetIntegration limited_client 0 service i = Inl too_many_requests"
  "Services_GetIntegration limited_client (Suc n) service i = Inr web_integration"
  "Addons_Install created_client n addon = Inr dashboard_addon"
  "Addons_Get created_client n i = Inl not_found"
  "Services_CreateIntegration created_client n service integration = Inr (Some web_integration)"
  "Services_GetIntegration created_client n service i = Inl not_found"
  by (simp_all add: listing_client_def quiet_client_def unnamed_client_def renamed_client_def
      limited_client_def created_client_def)

lemma scenario_errors:
  "isErrCode not_found 404"
  "isErrCode too_many_requests 429"
  "\<not> isErrCode too_many_requests 404"
  by (simp_all add: not_found_def too_many_requests_def)

lemma retry_scenario_clients:
  "Schedules_List (limited_listing_client schedules) 0 query = Inl too_many_requests"
  "Schedules_List (limited_listing_client schedules) (Suc n) query = Inr schedules"
  "Addons_Get vanishing_client 0 i = Inl server_error"
  "Addons_Get vanishing_client (Suc n) i = Inl not_found"
  "Services_GetIntegration vanishing_client 0 service i = Inl server_error"
  "Services_GetIntegration vanishing_client (Suc n) service i = Inl not_found"
  "Services_GetIntegration recovering_client 0 service i = Inl server_error"
  "Services_GetIntegration recovering_client (Suc n) service i = Inr renamed_integration"
  "\<not> isErrCode server_error 404"
  by (simp_all add: limited_listing_client_def vanishing_client_def recovering_client_def
      quiet_client_def server_error_def)

section \<open>Properties\<close>

subsection \<open>Rate limiting\<close>

text \<open>
  The schedule search follows the remote service's guidance: an attempt that is answered
  with HTTP 429 sleeps 30 seconds before it asks for a retry, and a search whose first
  listing is rate limited issues its second listing 30 seconds later.
\<close>

lemma schedule_search_rate_limited_waits_30s:
  "dataSourcePagerDutyScheduleRead limited_client search_state =
     Some (None,
       search_state\<lparr>res_id := ''PSCHED1'',
         history := [RemoteCall ''Schedules.List'', Slept 30000, RemoteCall ''Schedules.List'']\<rparr>)"
proof -
  let ?s1 = "search_state\<lparr>history := history search_state @
                [RemoteCall ''Schedules.List'', Slept 30000]\<rparr>"
  let ?s2 = "d_Set ''name'' (schedule_Name rotation_A)
               (d_SetId (schedule_ID rotation_A) (remote_call ''Schedules.List'' ?s1))"
  have first: "schedule_attempt limited_client ''OnCallRotationA'' search_state =
                 (Some (RetryableError too_many_requests), ?s1)"
    by (rule schedule_attempt_rate_limited)
       (simp_all add: scenario_states scenario_clients scenario_errors)
  have calls: "calls ?s1 = Suc 0" and clock: "clock ?s1 = 30000"
    by (simp_all add: calls_def clock_def search_state_def)
  have second: "schedule_attempt limited_client ''OnCallRotationA'' ?s1 = (None, ?s2)"
    by (simp add: schedule_attempt_def calls scenario_clients rotation_A_def)
  have "dataSourcePagerDutyScheduleRead limited_client search_state = Some (None, ?s2)"
    unfolding dataSourcePagerDutyScheduleRead_def Retry_def scenario_states
    by (rule Retry_loop_second_attempt [OF first _ second]) (simp add: clock)
  then show ?thesis
    by (simp add: d_Set_def d_SetId_def remote_call_def search_state_def rotation_A_def)
qed

text \<open>
  C1. The claim: every retried remote operation (the schedule search, the add-on fetch
  and the service-integration fetch) waits 30 seconds after an attempt that fails with
  HTTP 429. The two fetches do not: an add-on read and a service-integration read whose
  first lookup is answered with HTTP 429 sleep 2 seconds, the delay they take after every
  error their callback returns, and issue the second lookup then.
\<close>

theorem C1_fetch_retries_rate_limited_after_2s:
  "resourcePagerDutyAddonRead limited_client addon_state =
     Some (None,
       addon_state\<lparr>history := [RemoteCall ''Addons.Get'', Slept 2000, RemoteCall ''Addons.Get'']\<rparr>) \<and>
   resourcePagerDutyServiceIntegrationRead limited_client integration_state =
     Some (None,
       integration_state
         \<lparr>history := [RemoteCall ''Services.GetIntegration'', Slept 2000,
                      RemoteCall ''Services.GetIntegration'']\<rparr>)"
proof
  let ?s1 = "time_Sleep 2000 (remote_call ''Addons.Get'' addon_state)"
  let ?s2 = "d_Set ''src'' (addon_Src dashboard_addon)
               (d_Set ''name'' (addon_Name dashboard_addon) (remote_call ''Addons.Get'' ?s1))"
  have first: "addon_attempt limited_client handleNotFoundError addon_state =
                 (Some (RetryableError too_many_requests), ?s1)"
    by (rule addon_attempt_other_error)
       (simp_all add: scenario_states scenario_clients scenario_errors)
  have second: "addon_attempt limited_client handleNotFoundError ?s1 = (None, ?s2)"
    by (rule addon_attempt_success) (simp add: calls_simps scenario_states scenario_clients)
  have "resourcePagerDutyAddonRead limited_client addon_state = Some (None, ?s2)"
    unfolding resourcePagerDutyAddonRead_def fetchPagerDutyAddon_def Retry_def
    by (rule Retry_loop_second_attempt [OF first _ second])
       (simp add: clock_simps scenario_states)
  moreover have "?s2 = addon_state\<lparr>history :=
      [RemoteCall ''Addons.Get'', Slept 2000, RemoteCall ''Addons.Get'']\<rparr>"
    by (simp add: d_Set_def remote_call_def time_Sleep_def addon_state_def dashboard_addon_def
        fun_eq_iff)
  ultimately show "resourcePagerDutyAddonRead limited_client addon_state =
     Some (None, addon_state\<lparr>history :=
       [RemoteCall ''Addons.Get'', Slept 2000, RemoteCall ''Addons.Get'']\<rparr>)"
    by simp
next
  let ?s1 = "time_Sleep 2000 (remote_call ''Services.GetIntegration'' integration_state)"
  let ?s2 = "write_integration web_integration (remote_call ''Services.GetIntegration'' ?s1)"
  have first: "integration_attempt limited_client ''PSVC1'' handleNotFoundError integration_state =
                 (Some (RetryableError too_many_requests), ?s1)"
    by (rule integration_attempt_other_error)
       (simp_all add: scenario_states scenario_clients scenario_errors)
  have second: "integration_attempt limited_client ''PSVC1'' handleNotFoundError ?s1 = (None, ?s2)"
    by (rule integration_attempt_success)
       (simp add: calls_simps scenario_states scenario_clients)
  have "resourcePagerDutyServiceIntegrationRead limited_client integration_state =
          Some (None, ?s2)"
    unfolding resourcePagerDutyServiceIntegrationRead_def fetchPagerDutyServiceIntegration_def
      Retry_def Let_def scenario_states
    by (rule Retry_loop_second_attempt [OF first _ second])
       (simp add: clock_simps scenario_states)
  moreover have "?s2 = integration_state
         \<lparr>history := [RemoteCall ''Services.GetIntegration'', Slept 2000,
                      RemoteCall ''Services.GetIntegration'']\<rparr>"
    by (simp add: write_integration_def d_Set_def remote_call_def time_Sleep_def
        integration_state_def web_integration_def fun_eq_iff)
  ultimately show "resourcePagerDutyServiceIntegrationRead limited_client integration_state =
     Some (None,
       integration_state
         \<lparr>history := [RemoteCall ''Services.GetIntegration'', Slept 2000,
                      RemoteCall ''Services.GetIntegration'']\<rparr>)"
    by simp
qed

subsection \<open>Delete\<close>

text \<open>
  C2, as stated, fails: when the delete call reports HTTP 404 for a resource that is
  already gone, both Delete operations return that error and keep the identity.
\<close>

theorem C2_delete_of_absent_resource_counterexample:
  "resourcePagerDutyAddonDelete quiet_client addon_state =
     (Some (PagerDutyError 404 ''Not Found''),
      addon_state\<lparr>history := [RemoteCall ''Addons.Delete'']\<rparr>) \<and>
   res_id (addon_state\<lparr>history := [RemoteCall ''Addons.Delete'']\<rparr>) = ''PADDON1'' \<and>
   resourcePagerDutyServiceIntegrationDelete quiet_client integration_state =
     (Some (PagerDutyError 404 ''Not Found''),
      integration_state\<lparr>history := [RemoteCall ''Services.DeleteIntegration'']\<rparr>) \<and>
   res_id (integration_state\<lparr>history := [RemoteCall ''Services.DeleteIntegration'']\<rparr>) = ''PINT1''"
  by (simp add: resourcePagerDutyAddonDelete_def resourcePagerDutyServiceIntegrationDelete_def
      scenario_clients not_found_def remote_call_def addon_state_def integration_state_def)

text \<open>
  C2, amended. For every Delete operation (add-on and service integration): Delete issues
  one delete call; if the call reports an error, NotFound for an already absent resource
  included, Delete returns that error and leaves the local state's identity and
  attributes unchanged; if the call succeeds, Delete returns success and clears the
  identity.
\<close>

theorem C2_delete_clears_identity_only_on_success:
  "(Addons_Delete client (calls s) (d_Id s) = Some err \<longrightarrow>
      resourcePagerDutyAddonDelete client s =
        (Some err, s\<lparr>history := history s @ [RemoteCall ''Addons.Delete'']\<rparr>)) \<and>
   (Addons_Delete client (calls s) (d_Id s) = None \<longrightarrow>
      resourcePagerDutyAddonDelete client s =
        (None, s\<lparr>res_id := [], history := history s @ [RemoteCall ''Addons.Delete'']\<rparr>)) \<and>
   (Services_DeleteIntegration client (calls s) (d_Get s ''service'') (d_Id s) = Some err \<longrightarrow>
      resourcePagerDutyServiceIntegrationDelete client s =
        (Some err, s\<lparr>history := history s @ [RemoteCall ''Services.DeleteIntegration'']\<rparr>)) \<and>
   (Services_DeleteIntegration client (calls s) (d_Get s ''service'') (d_Id s) = None \<longrightarrow>
      resourcePagerDutyServiceIntegrationDelete client s =
        (None, s\<lparr>res_id := [],
                  history := history s @ [RemoteCall ''Services.DeleteIntegration'']\<rparr>))"
  by (simp add: resourcePagerDutyAddonDelete_def resourcePagerDutyServiceIntegrationDelete_def
      remote_call_def d_SetId_def)

theorem C2_delete_clears_identity_only_on_success_witness:
  "resourcePagerDutyAddonDelete quiet_client addon_state =
     (Some not_found, addon_state\<lparr>history := [RemoteCall ''Addons.Delete'']\<rparr>) \<and>
   resourcePagerDutyServiceIntegrationDelete quiet_client integration_state =
     (Some not_found, integration_state\<lparr>history := [RemoteCall ''Services.DeleteIntegration'']\<rparr>) \<and>
   resourcePagerDutyAddonDelete (quiet_client\<lparr>Addons_Delete := (\<lambda>n i. None)\<rparr>) addon_state =
     (None, addon_state\<lparr>res_id := [], history := [RemoteCall ''Addons.Delete'']\<rparr>)"
  using C2_delete_clears_identity_only_on_success [of quiet_client addon_state not_found]
        C2_delete_clears_identity_only_on_success [of quiet_client integration_state not_found]
        C2_delete_clears_identity_only_on_success
          [of "quiet_client\<lparr>Addons_Delete := (\<lambda>n i. None)\<rparr>" addon_state not_found]
  by (simp add: scenario_clients addon_state_def integration_state_def)

subsection \<open>Read\<close>

text \<open>
  C3. For every plain Read (add-on and service integration) whose remote Get fails with a
  NotFound error (HTTP 404), at whichever attempt of the retry loop, Read clears the local
  state's identity and returns no error. The attempt that is told NotFound may be the
  first (\<open>k = 0\<close>) or come after \<open>k\<close> attempts that failed with other errors; each of
  those slept 2 seconds, so the attempt is reached exactly when \<open>2000 * k\<close> is inside the
  two-minute window. Read returns right after the call that was answered NotFound, with
  the attributes as they were.
\<close>

theorem C3_read_not_found_clears_identity:
  assumes gone: "isErrCode err 404"
    and reached: "2000 * k < 120000"
  shows "((\<forall>i<k. \<exists>e. Addons_Get client (calls s + i) (d_Id s) = Inl e \<and> \<not> isErrCode e 404) \<and>
          Addons_Get client (calls s + k) (d_Id s) = Inl err \<longrightarrow>
            resourcePagerDutyAddonRead client s =
              Some (None,
                s\<lparr>res_id := [],
                  history := history s @
                    concat (replicate k [RemoteCall ''Addons.Get'', Slept 2000]) @
                    [RemoteCall ''Addons.Get'']\<rparr>)) \<and>
         ((\<forall>i<k. \<exists>e. Services_GetIntegration client (calls s + i) (d_Get s ''service'') (d_Id s)
                         = Inl e \<and> \<not> isErrCode e 404) \<and>
          Services_GetIntegration client (calls s + k) (d_Get s ''service'') (d_Id s) = Inl err \<longrightarrow>
            resourcePagerDutyServiceIntegrationRead client s =
              Some (None,
                s\<lparr>res_id := [],
                  history := history s @
                    concat (replicate k [RemoteCall ''Services.GetIntegration'', Slept 2000]) @
                    [RemoteCall ''Services.GetIntegration'']\<rparr>))"
proof (intro conjI impI; elim conjE)
  let ?sk = "retried ''Addons.Get'' 2000 k s"
  assume failed: "\<forall>i<k. \<exists>e. Addons_Get client (calls s + i) (d_Id s) = Inl e \<and> \<not> isErrCode e 404"
    and last: "Addons_Get client (calls s + k) (d_Id s) = Inl err"
  have "resourcePagerDutyAddonRead client s =
          Retry_loop (clock s + 120000) (addon_attempt client handleNotFoundError) ?sk"
    using addon_loop_after_failures [OF failed, of "clock s + 120000"] reached
    by (simp add: resourcePagerDutyAddonRead_def fetchPagerDutyAddon_def Retry_def)
  also have "\<dots> = Some (None, ?sk\<lparr>res_id := [],
                        history := history ?sk @ [RemoteCall ''Addons.Get'']\<rparr>)"
    by (rule addon_loop_not_found [where err = err]) (simp_all add: retried_simps last gone)
  finally show "resourcePagerDutyAddonRead client s =
      Some (None,
        s\<lparr>res_id := [],
          history := history s @
            concat (replicate k [RemoteCall ''Addons.Get'', Slept 2000]) @
            [RemoteCall ''Addons.Get'']\<rparr>)"
    by (simp add: retried_def)
next
  let ?sk = "retried ''Services.GetIntegration'' 2000 k s"
  assume failed: "\<forall>i<k. \<exists>e. Services_GetIntegration client (calls s + i) (d_Get s ''service'')
                     (d_Id s) = Inl e \<and> \<not> isErrCode e 404"
    and last: "Services_GetIntegration client (calls s + k) (d_Get s ''service'') (d_Id s) = Inl err"
  have "resourcePagerDutyServiceIntegrationRead client s =
          Retry_loop (clock s + 120000)
            (integration_attempt client (d_Get s ''service'') handleNotFoundError) ?sk"
    using integration_loop_after_failures [OF failed, of "clock s + 120000"] reached
    by (simp add: resourcePagerDutyServiceIntegrationRead_def
        fetchPagerDutyServiceIntegration_def Retry_def)
  also have "\<dots> = Some (None, ?sk\<lparr>res_id := [],
                        history := history ?sk @ [RemoteCall ''Services.GetIntegration'']\<rparr>)"
    by (rule integration_loop_not_found [where err = err])
       (simp_all add: retried_simps last gone)
  finally show "resourcePagerDutyServiceIntegrationRead client s =
      Some (None,
        s\<lparr>res_id := [],
          history := history s @
            concat (replicate k [RemoteCall ''Services.GetIntegration'', Slept 2000]) @
            [RemoteCall ''Services.GetIntegration'']\<rparr>)"
    by (simp add: retried_def)
qed

theorem C3_read_not_found_clears_identity_witness:
  "isErrCode not_found 404 \<and>
   resourcePagerDutyAddonRead quiet_client addon_state =
     Some (None, addon_state\<lparr>res_id := [], history := [RemoteCall ''Addons.Get'']\<rparr>) \<and>
   resourcePagerDutyServiceIntegrationRead quiet_client integration_state =
     Some (None, integration_state\<lparr>res_id := [],
                   history := [RemoteCall ''Services.GetIntegration'']\<rparr>) \<and>
   resourcePagerDutyAddonRead vanishing_client addon_state =
     Some (None, addon_state\<lparr>res_id := [],
                   history := [RemoteCall ''Addons.Get'', Slept 2000, RemoteCall ''Addons.Get'']\<rparr>) \<and>
   resourcePagerDutyServiceIntegrationRead vanishing_client integration_state =
     Some (None, integration_state\<lparr>res_id := [],
                   history := [RemoteCall ''Services.GetIntegration'', Slept 2000,
                               RemoteCall ''Services.GetIntegration'']\<rparr>)"
  using C3_read_not_found_clears_identity
          [where err = not_found and k = 0 and client = quiet_client and s = addon_state]
        C3_read_not_found_clears_identity
          [where err = not_found and k = 0 and client = quiet_client and s = integration_state]
        C3_read_not_found_clears_identity
          [where err = not_found and k = 1 and client = vanishing_client and s = addon_state]
        C3_read_not_found_clears_identity
          [where err = not_found and k = 1 and client = vanishing_client
             and s = integration_state]
  by (simp add: scenario_clients retry_scenario_clients scenario_errors scenario_states)
     (simp add: addon_state_def integration_state_def)

text \<open>
  C9, as stated, fails: a field that comes back empty is not always left untouched. The
  name is written unconditionally, so an integration fetched without a name clears the
  local name.
\<close>

theorem C9_read_of_unnamed_integration_counterexample:
  "res_attrs integration_state ''name'' = Some ''web'' \<and>
   int_Name unnamed_integration = [] \<and>
   resourcePagerDutyServiceIntegrationRead unnamed_client integration_state =
     Some (None,
       integration_state
         \<lparr>res_attrs := (res_attrs integration_state)(''name'' \<mapsto> []),
          history := [RemoteCall ''Services.GetIntegration'']\<rparr>)"
proof -
  have "Services_GetIntegration unnamed_client (calls integration_state)
          (d_Get integration_state ''service'') (d_Id integration_state) = Inr unnamed_integration"
    by (simp add: scenario_clients)
  from integration_read_success [OF this, of handleNotFoundError]
  have "resourcePagerDutyServiceIntegrationRead unnamed_client integration_state =
     Some (None, write_integration unnamed_integration
                   (remote_call ''Services.GetIntegration'' integration_state))"
    by (simp add: resourcePagerDutyServiceIntegrationRead_def)
  moreover have "write_integration unnamed_integration
                   (remote_call ''Services.GetIntegration'' integration_state) =
       integration_state
         \<lparr>res_attrs := (res_attrs integration_state)(''name'' \<mapsto> []),
          history := [RemoteCall ''Services.GetIntegration'']\<rparr>"
    by (simp add: write_integration_def d_Set_def remote_call_def integration_state_def
        unnamed_integration_def web_integration_def fun_eq_iff)
  ultimately show ?thesis
    by (simp add: integration_state_def unnamed_integration_def)
qed

text \<open>
  C9, amended. For every successful Read of a service integration, at whichever attempt
  of the retry loop the Get succeeds: name and type are always overwritten with the
  fetched values, empty or not; service and vendor are written when the fetched
  reference is present and left untouched when it is absent; integration_key,
  integration_email and html_url are written when the fetched value is non-empty and
  left untouched when it is empty; the identity and every other attribute are left
  untouched. The successful attempt may be the first (\<open>k = 0\<close>) or come after \<open>k\<close>
  attempts that failed with errors other than NotFound; each of those slept 2 seconds, so
  the attempt is reached exactly when \<open>2000 * k\<close> is inside the two-minute window.
\<close>

theorem C9_read_writes_fetched_fields:
  assumes failed: "\<forall>i<k. \<exists>e. Services_GetIntegration client (calls s + i) (d_Get s ''service'')
                       (d_Id s) = Inl e \<and> \<not> isErrCode e 404"
    and reached: "2000 * k < 120000"
    and fetched: "Services_GetIntegration client (calls s + k) (d_Get s ''service'') (d_Id s) = Inr si"
  shows "\<exists>s'. resourcePagerDutyServiceIntegrationRead client s = Some (None, s') \<and>
           res_id s' = res_id s \<and>
           history s' = history s @
             concat (replicate k [RemoteCall ''Services.GetIntegration'', Slept 2000]) @
             [RemoteCall ''Services.GetIntegration''] \<and>
           res_attrs s' ''name'' = Some (int_Name si) \<and>
           res_attrs s' ''type'' = Some (int_Type si) \<and>
           res_attrs s' ''service'' =
             (case int_Service si of Some service \<Rightarrow> Some (sref_ID service)
              | None \<Rightarrow> res_attrs s ''service'') \<and>
           res_attrs s' ''vendor'' =
             (case int_Vendor si of Some vendor \<Rightarrow> Some (vref_ID vendor)
              | None \<Rightarrow> res_attrs s ''vendor'') \<and>
           res_attrs s' ''integration_key'' =
             (if int_IntegrationKey si \<noteq> [] then Some (int_IntegrationKey si)
              else res_attrs s ''integration_key'') \<and>
           res_attrs s' ''integration_email'' =
             (if int_IntegrationEmail si \<noteq> [] then Some (int_IntegrationEmail si)
              else res_attrs s ''integration_email'') \<and>
           res_attrs s' ''html_url'' =
             (if int_HTMLURL si \<noteq> [] then Some (int_HTMLURL si)
              else res_attrs s ''html_url'') \<and>
           (\<forall>key. key \<notin> integration_keys \<longrightarrow> res_attrs s' key = res_attrs s key)"
proof -
  let ?sk = "retried ''Services.GetIntegration'' 2000 k s"
  have "resourcePagerDutyServiceIntegrationRead client s =
          Retry_loop (clock s + 120000)
            (integration_attempt client (d_Get s ''service'') handleNotFoundError) ?sk"
    using integration_loop_after_failures [OF failed, of "clock s + 120000"] reached
    by (simp add: resourcePagerDutyServiceIntegrationRead_def
        fetchPagerDutyServiceIntegration_def Retry_def)
  also have "\<dots> = Some (None,
      write_integration si (remote_call ''Services.GetIntegration'' ?sk))"
    by (rule integration_loop_success) (simp add: retried_simps fetched)
  finally have "resourcePagerDutyServiceIntegrationRead client s =
      Some (None, write_integration si (remote_call ''Services.GetIntegration'' ?sk))" .
  moreover have "history ?sk =
      history s @ concat (replicate k [RemoteCall ''Services.GetIntegration'', Slept 2000])"
    by (simp add: retried_def)
  ultimately show ?thesis
    by (simp add: write_integration_frame write_integration_attrs write_integration_other
        res_id_simps res_attrs_simps history_simps retried_simps
        cong: option.case_cong if_cong)
qed

theorem C9_read_writes_fetched_fields_witness:
  "(\<exists>s'. resourcePagerDutyServiceIntegrationRead renamed_client integration_state =
            Some (None, s') \<and>
      res_id s' = ''PINT1'' \<and>
      history s' = [RemoteCall ''Services.GetIntegration''] \<and>
      res_attrs s' ''name'' = Some ''web-renamed'' \<and>
      res_attrs s' ''type'' = Some ''generic_events_api_inbound_integration'' \<and>
      res_attrs s' ''service'' = Some ''PSVC1'' \<and>
      res_attrs s' ''vendor'' = None \<and>
      res_attrs s' ''integration_key'' = Some ''k-local'' \<and>
      res_attrs s' ''integration_email'' = None \<and>
      res_attrs s' ''html_url'' = Some ''https://acme.pagerduty.com/i/PINT1'') \<and>
   (\<exists>s'. resourcePagerDutyServiceIntegrationRead recovering_client integration_state =
            Some (None, s') \<and>
      res_id s' = ''PINT1'' \<and>
      history s' = [RemoteCall ''Services.GetIntegration'', Slept 2000,
                    RemoteCall ''Services.GetIntegration''] \<and>
      res_attrs s' ''name'' = Some ''web-renamed'' \<and>
      res_attrs s' ''type'' = Some ''generic_events_api_inbound_integration'' \<and>
      res_attrs s' ''service'' = Some ''PSVC1'' \<and>
      res_attrs s' ''vendor'' = None \<and>
      res_attrs s' ''integration_key'' = Some ''k-local'' \<and>
      res_attrs s' ''integration_email'' = None \<and>
      res_attrs s' ''html_url'' = Some ''https://acme.pagerduty.com/i/PINT1'')"
proof
  show "\<exists>s'. resourcePagerDutyServiceIntegrationRead renamed_client integration_state =
            Some (None, s') \<and>
      res_id s' = ''PINT1'' \<and>
      history s' = [RemoteCall ''Services.GetIntegration''] \<and>
      res_attrs s' ''name'' = Some ''web-renamed'' \<and>
      res_attrs s' ''type'' = Some ''generic_events_api_inbound_integration'' \<and>
      res_attrs s' ''service'' = Some ''PSVC1'' \<and>
      res_attrs s' ''vendor'' = None \<and>
      res_attrs s' ''integration_key'' = Some ''k-local'' \<and>
      res_attrs s' ''integration_email'' = None \<and>
      res_attrs s' ''html_url'' = Some ''https://acme.pagerduty.com/i/PINT1''"
    using C9_read_writes_fetched_fields
            [where k = 0 and client = renamed_client and s = integration_state
               and si = renamed_integration]
    by (simp add: scenario_clients scenario_states)
       (auto simp add: integration_state_def renamed_integration_def web_integration_def)
  show "\<exists>s'. resourcePagerDutyServiceIntegrationRead recovering_client integration_state =
            Some (None, s') \<and>
      res_id s' = ''PINT1'' \<and>
      history s' = [RemoteCall ''Services.GetIntegration'', Slept 2000,
                    RemoteCall ''Services.GetIntegration''] \<and>
      res_attrs s' ''name'' = Some ''web-renamed'' \<and>
      res_attrs s' ''type'' = Some ''generic_events_api_inbound_integration'' \<and>
      res_attrs s' ''service'' = Some ''PSVC1'' \<and>
      res_attrs s' ''vendor'' = None \<and>
      res_attrs s' ''integration_key'' = Some ''k-local'' \<and>
      res_attrs s' ''integration_email'' = None \<and>
      res_attrs s' ''html_url'' = Some ''https://acme.pagerduty.com/i/PINT1''"
    using C9_read_writes_fetched_fields
            [where k = 1 and client = recovering_client and s = integration_state
               and si = renamed_integration]
    by (simp add: retry_scenario_clients scenario_states)
       (auto simp add: integration_state_def renamed_integration_def web_integration_def)
qed

subsection \<open>Create\<close>



subsection \<open>Schedule search\<close>

text \<open>
  C5. For every schedule search whose listing call succeeds, at whichever attempt of the
  retry loop, the search returns the identity of the first listed schedule whose name
  equals the filter value exactly (equality of the two strings, character by character):
  if the listing is \<open>before @ found # after\<close>, no schedule in \<open>before\<close> has the searched
  name and \<open>found\<close> has it, the search succeeds with the identity and the name of
  \<open>found\<close>, whatever \<open>after\<close> holds. The successful listing may be the first call
  (\<open>k = 0\<close>) or come after \<open>k\<close> rate-limited calls; each of those slept 30 seconds, so the
  attempt is reached exactly when \<open>30000 * k\<close> is inside the two-minute window. In
  particular the filter "OnCallRotationA" against a listing of "OnCallRotationA" and
  "OnCallRotationAB" resolves to the identity of "OnCallRotationA".
\<close>

theorem C5_schedule_search_first_exact_match:
  assumes limited: "\<forall>i<k. \<exists>e. Schedules_List client (calls s + i) (d_Get s ''name'') = Inl e \<and>
                        isErrCode e 429"
    and reached: "30000 * k < 120000"
    and listed: "Schedules_List client (calls s + k) (d_Get s ''name'') =
                   Inr (before @ found # after)"
    and earlier: "\<forall>schedule\<in>set before. schedule_Name schedule \<noteq> d_Get s ''name''"
    and exact: "schedule_Name found = d_Get s ''name''"
  shows "dataSourcePagerDutyScheduleRead client s =
           Some (None,
             s\<lparr>res_id := schedule_ID found,
               res_attrs := (res_attrs s)(''name'' \<mapsto> schedule_Name found),
               history := history s @
                 concat (replicate k [RemoteCall ''Schedules.List'', Slept 30000]) @
                 [RemoteCall ''Schedules.List'']\<rparr>)"
proof -
  let ?sk = "retried ''Schedules.List'' 30000 k s"
  have "dataSourcePagerDutyScheduleRead client s =
          Retry_loop (clock s + 120000) (schedule_attempt client (d_Get s ''name'')) ?sk"
    using schedule_loop_after_rate_limits [OF limited, of "clock s + 120000"] reached
    by (simp add: dataSourcePagerDutyScheduleRead_def Retry_def)
  also have "\<dots> = Some (None,
      ?sk\<lparr>res_id := schedule_ID found,
          res_attrs := (res_attrs ?sk)(''name'' \<mapsto> schedule_Name found),
          history := history ?sk @ [RemoteCall ''Schedules.List'']\<rparr>)"
    by (rule schedule_loop_first_exact_match [where before = before and after = after])
       (simp_all add: retried_simps listed earlier exact)
  finally show ?thesis
    by (simp add: retried_def)
qed

theorem C5_schedule_search_first_exact_match_witness:
  "dataSourcePagerDutyScheduleRead (listing_client [rotation_A, rotation_AB]) search_state =
     Some (None,
       search_state\<lparr>res_id := ''PSCHED1'', history := [RemoteCall ''Schedules.List'']\<rparr>) \<and>
   dataSourcePagerDutyScheduleRead (listing_client [rotation_lower, rotation_AB, rotation_A])
       search_state =
     Some (None,
       search_state\<lparr>res_id := ''PSCHED1'', history := [RemoteCall ''Schedules.List'']\<rparr>) \<and>
   dataSourcePagerDutyScheduleRead (limited_listing_client [rotation_AB, rotation_A])
       search_state =
     Some (None,
       search_state\<lparr>res_id := ''PSCHED1'',
         history := [RemoteCall ''Schedules.List'', Slept 30000, RemoteCall ''Schedules.List'']\<rparr>)"
  using C5_schedule_search_first_exact_match
          [where k = 0 and client = "listing_client [rotation_A, rotation_AB]"
             and s = search_state and before = "[]" and found = rotation_A
             and after = "[rotation_AB]"]
        C5_schedule_search_first_exact_match
          [where k = 0 and client = "listing_client [rotation_lower, rotation_AB, rotation_A]"
             and s = search_state and before = "[rotation_lower, rotation_AB]"
             and found = rotation_A and after = "[]"]
        C5_schedule_search_first_exact_match
          [where k = 1 and client = "limited_listing_client [rotation_AB, rotation_A]"
             and s = search_state and before = "[rotation_AB]" and found = rotation_A
             and after = "[]"]
  by (simp add: scenario_clients retry_scenario_clients scenario_errors calls_def d_Get_def
      search_state_def rotation_A_def rotation_AB_def rotation_lower_def)

text \<open>
  C6. For every schedule search whose listing call succeeds, at whichever attempt of the
  retry loop, but lists no schedule whose name equals the filter value exactly (the empty
  listing included), the search fails with the error "Unable to locate any schedule with
  the name: " followed by the searched value, and the retry loop does not retry it: the
  search returns right after that listing call, without sleeping again. As in C5 the
  listing may be the first call or come after \<open>k\<close> rate-limited calls inside the
  two-minute window.
\<close>

theorem C6_schedule_search_no_match_fails_once:
  assumes limited: "\<forall>i<k. \<exists>e. Schedules_List client (calls s + i) (d_Get s ''name'') = Inl e \<and>
                        isErrCode e 429"
    and reached: "30000 * k < 120000"
    and listed: "Schedules_List client (calls s + k) (d_Get s ''name'') = Inr schedules"
    and none: "\<forall>schedule\<in>set schedules. schedule_Name schedule \<noteq> d_Get s ''name''"
  shows "dataSourcePagerDutyScheduleRead client s =
           Some (Some (PlainError
                   (''Unable to locate any schedule with the name: '' @ d_Get s ''name'')),
                 s\<lparr>history := history s @
                     concat (replicate k [RemoteCall ''Schedules.List'', Slept 30000]) @
                     [RemoteCall ''Schedules.List'']\<rparr>)"
proof -
  let ?sk = "retried ''Schedules.List'' 30000 k s"
  have "dataSourcePagerDutyScheduleRead client s =
          Retry_loop (clock s + 120000) (schedule_attempt client (d_Get s ''name'')) ?sk"
    using schedule_loop_after_rate_limits [OF limited, of "clock s + 120000"] reached
    by (simp add: dataSourcePagerDutyScheduleRead_def Retry_def)
  also have "\<dots> = Some (Some (PlainError
                   (''Unable to locate any schedule with the name: '' @ d_Get s ''name'')),
                 ?sk\<lparr>history := history ?sk @ [RemoteCall ''Schedules.List'']\<rparr>)"
    by (rule schedule_loop_no_match [where schedules = schedules])
       (simp_all add: retried_simps listed none)
  finally show ?thesis
    by (simp add: retried_def)
qed

theorem C6_schedule_search_no_match_fails_once_witness:
  "dataSourcePagerDutyScheduleRead (listing_client [rotation_lower, rotation_AB]) search_state =
     Some (Some (PlainError ''Unable to locate any schedule with the name: OnCallRotationA''),
           search_state\<lparr>history := [RemoteCall ''Schedules.List'']\<rparr>) \<and>
   dataSourcePagerDutyScheduleRead (listing_client []) search_state =
     Some (Some (PlainError ''Unable to locate any schedule with the name: OnCallRotationA''),
           search_state\<lparr>history := [RemoteCall ''Schedules.List'']\<rparr>) \<and>
   dataSourcePagerDutyScheduleRead (limited_listing_client [rotation_AB]) search_state =
     Some (Some (PlainError ''Unable to locate any schedule with the name: OnCallRotationA''),
           search_state\<lparr>history :=
             [RemoteCall ''Schedules.List'', Slept 30000, RemoteCall ''Schedules.List'']\<rparr>)"
  using C6_schedule_search_no_match_fails_once
          [where k = 0 and client = "listing_client [rotation_lower, rotation_AB]"
             and s = search_state and schedules = "[rotation_lower, rotation_AB]"]
        C6_schedule_search_no_match_fails_once
          [where k = 0 and client = "listing_client []" and s = search_state
             and schedules = "[]"]
        C6_schedule_search_no_match_fails_once
          [where k = 1 and client = "limited_listing_client [rotation_AB]"
             and s = search_state and schedules = "[rotation_AB]"]
  by (simp add: scenario_clients retry_scenario_clients scenario_errors calls_def d_Get_def
      search_state_def rotation_AB_def rotation_lower_def)

subsection \<open>Validation before the network\<close>

text \<open>
  C7. For every service-integration Create and Update where the local state has type
  "generic_email_inbound_integration" and integration_email unset (empty), the operation
  fails with the validation error about integration_email before any network call is
  issued: the state, and with it the history of remote calls, is returned unchanged.
\<close>

theorem C7_email_integration_without_email_is_rejected:
  assumes "d_Get s ''type'' = ''generic_email_inbound_integration''"
    and "d_Get s ''integration_email'' = []"
  shows "resourcePagerDutyServiceIntegrationCreate client s =
           Some (Some (PlainError errEmailIntegrationMustHaveEmail), s) \<and>
         resourcePagerDutyServiceIntegrationUpdate client s =
           (Some (PlainError errEmailIntegrationMustHaveEmail), s)"
  using build_email_missing [OF assms]
  by (simp add: resourcePagerDutyServiceIntegrationCreate_def
      resourcePagerDutyServiceIntegrationUpdate_def)

theorem C7_email_integration_without_email_is_rejected_witness:
  "resourcePagerDutyServiceIntegrationCreate created_client email_state =
     Some (Some (PlainError
       ''integration_email attribute must be set for an integration type generic_email_inbound_integration''),
       email_state) \<and>
   resourcePagerDutyServiceIntegrationUpdate created_client email_state =
     (Some (PlainError
       ''integration_email attribute must be set for an integration type generic_email_inbound_integration''),
       email_state) \<and>
   history email_state = []"
  using C7_email_integration_without_email_is_rejected [of email_state created_client]
  by (simp add: scenario_states errEmailIntegrationMustHaveEmail_def)
     (simp add: email_state_def)

text \<open>
  C8. For every raw import ID, the service-integration import splits it on "." and, if
  the number of components is not exactly 2 (no delimiter, or two or more delimiters),
  fails with the error describing the expected '<service_id>.<integration_id>' format
  before any network call is made: it returns no resource data and leaves the state, and
  with it the history of remote calls, unchanged.
\<close>

theorem C8_import_rejects_wrong_component_count:
  assumes "count_list (d_Id s) (CHR ''.'') \<noteq> 1"
  shows "length (strings_Split (d_Id s) (CHR ''.'')) \<noteq> 2 \<and>
         resourcePagerDutyServiceIntegrationImport client s =
           (([], Some (PlainError errImportFormat)), s)"
  using assms
  by (simp add: resourcePagerDutyServiceIntegrationImport_def length_strings_Split)

theorem C8_import_rejects_wrong_component_count_witness:
  "resourcePagerDutyServiceIntegrationImport quiet_client (import_state ''PSVC1PINT1'') =
     (([], Some (PlainError errImportFormat)), import_state ''PSVC1PINT1'') \<and>
   resourcePagerDutyServiceIntegrationImport quiet_client (import_state ''PSVC1.PINT1.x'') =
     (([], Some (PlainError errImportFormat)), import_state ''PSVC1.PINT1.x'') \<and>
   resourcePagerDutyServiceIntegrationImport quiet_client (import_state []) =
     (([], Some (PlainError errImportFormat)), import_state []) \<and>
   history (import_state ''PSVC1PINT1'') = []"
  using C8_import_rejects_wrong_component_count [of "import_state ''PSVC1PINT1''" quiet_client]
        C8_import_rejects_wrong_component_count [of "import_state ''PSVC1.PINT1.x''" quiet_client]
        C8_import_rejects_wrong_component_count [of "import_state []" quiet_client]
  by (simp add: scenario_states) (simp add: import_state_def)

subsection \<open>Update\<close>

text \<open>
  C10. For every Update operation (add-on and service integration), local state is never
  modified: the identity and every attribute are the same after the operation as before
  it, whether the remote update call succeeds, fails, or is never issued.
\<close>

theorem C10_update_leaves_local_state_unchanged:
  "res_id (snd (resourcePagerDutyAddonUpdate client s)) = res_id s \<and>
   res_attrs (snd (resourcePagerDutyAddonUpdate client s)) = res_attrs s \<and>
   res_id (snd (resourcePagerDutyServiceIntegrationUpdate client s)) = res_id s \<and>
   res_attrs (snd (resourcePagerDutyServiceIntegrationUpdate client s)) = res_attrs s"
  by (simp add: resourcePagerDutyAddonUpdate_def resourcePagerDutyServiceIntegrationUpdate_def
      Let_def res_id_simps res_attrs_simps split: option.split sum.split)

theorem C10_update_leaves_local_state_unchanged_witness:
  "res_id (snd (resourcePagerDutyAddonUpdate quiet_client addon_state)) = ''PADDON1'' \<and>
   res_attrs (snd (resourcePagerDutyAddonUpdate failing_update_client addon_state)) =
     res_attrs addon_state \<and>
   res_id (snd (resourcePagerDutyServiceIntegrationUpdate failing_update_client
                  integration_state)) = ''PINT1'' \<and>
   res_attrs (snd (resourcePagerDutyServiceIntegrationUpdate quiet_client integration_state)) =
     res_attrs integration_state"
  using C10_update_leaves_local_state_unchanged [of quiet_client addon_state]
        C10_update_leaves_local_state_unchanged [of failing_update_client addon_state]
        C10_update_leaves_local_state_unchanged [of failing_update_client integration_state]
        C10_update_leaves_local_state_unchanged [of quiet_client integration_state]
  by (simp add: addon_state_def integration_state_def)

end
